theory Spec2Isabelle
  imports Main
begin

section \<open>The library the handlers call\<close>

text \<open>
  \<^verbatim>\<open>server.go\<close> holds two HTTP handlers, \<^verbatim>\<open>proxyHandler\<close> and \<^verbatim>\<open>healthHandler\<close>.
  Both work on values of Go's \<^verbatim>\<open>net/http\<close>: a header map, a response writer, a request.
  This section gives those values and the library calls the handlers make on them; the
  handlers themselves follow in the next section, statement by statement.
\<close>

subsection \<open>Header maps\<close>

text \<open>
  \<^verbatim>\<open>http.Header\<close> is \<^verbatim>\<open>map[string][]string\<close>. \<^verbatim>\<open>Set\<close>, \<^verbatim>\<open>Add\<close>, \<^verbatim>\<open>Get\<close> and \<^verbatim>\<open>Del\<close> first
  bring the key into canonical form (\<^verbatim>\<open>textproto.CanonicalMIMEHeaderKey\<close>): a key made of
  token bytes only gets an upper-case letter at its start and after every hyphen and
  lower-case letters elsewhere; a key with any other byte is left as it is.
\<close>

type_synonym header = "string \<rightharpoonup> string list"

definition lower_letters :: string where
  "lower_letters = ''abcdefghijklmnopqrstuvwxyz''"

definition upper_letters :: string where
  "upper_letters = ''ABCDEFGHIJKLMNOPQRSTUVWXYZ''"

definition validHeaderFieldByte :: "char \<Rightarrow> bool" where
  "validHeaderFieldByte c \<longleftrightarrow>
     c \<in> set (lower_letters @ upper_letters @ ''0123456789'' @ ''!#$%&''
              @ [CHR 0x27] @ ''*+-.^_'' @ [CHR 0x60] @ ''|~'')"

definition toUpper :: "char \<Rightarrow> char" where
  "toUpper c = (case map_of (zip lower_letters upper_letters) c of Some d \<Rightarrow> d | None \<Rightarrow> c)"

definition toLower :: "char \<Rightarrow> char" where
  "toLower c = (case map_of (zip upper_letters lower_letters) c of Some d \<Rightarrow> d | None \<Rightarrow> c)"

text \<open>The loop of \<^verbatim>\<open>canonicalMIMEHeaderKey\<close>; the flag \<open>upper\<close> is its variable of that name.\<close>

fun canonicalize :: "bool \<Rightarrow> string \<Rightarrow> string" where
  "canonicalize upper [] = []"
| "canonicalize upper (c # cs) =
     (if upper then toUpper c else toLower c) # canonicalize (c = CHR ''-'') cs"

definition CanonicalMIMEHeaderKey :: "string \<Rightarrow> string" where
  "CanonicalMIMEHeaderKey s =
     (if list_all validHeaderFieldByte s then canonicalize True s else s)"

definition Header_Set :: "header \<Rightarrow> string \<Rightarrow> string \<Rightarrow> header" where
  "Header_Set h key val = h(CanonicalMIMEHeaderKey key \<mapsto> [val])"

definition Header_Add :: "header \<Rightarrow> string \<Rightarrow> string \<Rightarrow> header" where
  "Header_Add h key val =
     (let k = CanonicalMIMEHeaderKey key
      in h(k \<mapsto> (case h k of None \<Rightarrow> [] | Some vs \<Rightarrow> vs) @ [val]))"

definition Header_Del :: "header \<Rightarrow> string \<Rightarrow> header" where
  "Header_Del h key = h(CanonicalMIMEHeaderKey key := None)"

text \<open>\<^verbatim>\<open>Get\<close> returns the first value under the key, and the empty string when there is none.\<close>

definition Header_Get :: "header \<Rightarrow> string \<Rightarrow> string" where
  "Header_Get h key =
     (case h (CanonicalMIMEHeaderKey key) of
        None \<Rightarrow> []
      | Some [] \<Rightarrow> []
      | Some (v # _) \<Rightarrow> v)"

subsection \<open>Query values\<close>

text \<open>
  \<^verbatim>\<open>url.Values\<close>, the result of \<^verbatim>\<open>r.URL.Query()\<close>, is again \<^verbatim>\<open>map[string][]string\<close>;
  its \<^verbatim>\<open>Get\<close> looks the key up as given and returns the first value or the empty string.
\<close>

type_synonym url_Values = "string \<rightharpoonup> string list"

definition Values_Get :: "url_Values \<Rightarrow> string \<Rightarrow> string" where
  "Values_Get v key =
     (case v key of
        None \<Rightarrow> []
      | Some [] \<Rightarrow> []
      | Some (x # _) \<Rightarrow> x)"

subsection \<open>The response writer\<close>

text \<open>
  The \<^verbatim>\<open>http.ResponseWriter\<close> a handler writes to, as \<^verbatim>\<open>httptest.ResponseRecorder\<close>
  records it (the repository's tests read the handler's response from one):
  \<^item> \<open>HeaderMap\<close> is the map \<^verbatim>\<open>w.Header()\<close> returns, which the handler mutates;
  \<^item> the first \<^verbatim>\<open>WriteHeader\<close> fixes the status code and the headers that are sent
    (\<open>snapHeader\<close>); a later call changes nothing;
  \<^item> \<^verbatim>\<open>Write\<close> appends to the body, after an implicit \<^verbatim>\<open>WriteHeader(200)\<close> when no
    header was written yet.
\<close>

record ResponseWriter =
  HeaderMap :: header
  wroteHeader :: bool
  Code :: nat
  snapHeader :: header
  Body :: string

definition NewRecorder :: ResponseWriter where
  "NewRecorder =
     \<lparr>HeaderMap = Map.empty, wroteHeader = False, Code = 200,
      snapHeader = Map.empty, Body = []\<rparr>"

text \<open>
  \<^verbatim>\<open>WriteHeader\<close> panics on a status code below 100 or above 999
  (\<^verbatim>\<open>checkWriteHeaderCode\<close>: "invalid WriteHeader code"), after the test for an earlier
  call and before it changes anything. A call on the writer therefore either returns,
  with the writer as the call leaves it, or panics, with the writer as it stood then.
\<close>

datatype panic = InvalidWriteHeaderCode nat

datatype outcome =
  is_Returned: Returned (writer: ResponseWriter)
| Panicked panic (writer: ResponseWriter)

definition checkWriteHeaderCode :: "nat \<Rightarrow> panic option" where
  "checkWriteHeaderCode code =
     (if code < 100 \<or> 999 < code then Some (InvalidWriteHeaderCode code) else None)"

definition WriteHeader :: "ResponseWriter \<Rightarrow> nat \<Rightarrow> outcome" where
  "WriteHeader w code =
     (if wroteHeader w then Returned w
      else case checkWriteHeaderCode code of
             Some p \<Rightarrow> Panicked p w
           | None \<Rightarrow>
               Returned (w\<lparr>wroteHeader := True, Code := code, snapHeader := HeaderMap w\<rparr>))"

definition Write :: "ResponseWriter \<Rightarrow> string \<Rightarrow> outcome" where
  "Write w buf =
     (case (if wroteHeader w then Returned w else WriteHeader w 200) of
        Returned w1 \<Rightarrow> Returned (w1\<lparr>Body := Body w1 @ buf\<rparr>)
      | Panicked p w1 \<Rightarrow> Panicked p w1)"

text \<open>
  \<^verbatim>\<open>http.Error(w, error, code)\<close>: drops \<^verbatim>\<open>Content-Length\<close>, sets the content type to
  plain text and \<^verbatim>\<open>X-Content-Type-Options: nosniff\<close>, writes the status code, then prints
  the message and a newline (\<^verbatim>\<open>fmt.Fprintln\<close>).
\<close>

definition http_Error :: "ResponseWriter \<Rightarrow> string \<Rightarrow> nat \<Rightarrow> outcome" where
  "http_Error w error code =
     (let h = Header_Del (HeaderMap w) ''Content-Length'';
          h = Header_Set h ''Content-Type'' ''text/plain; charset=utf-8'';
          h = Header_Set h ''X-Content-Type-Options'' ''nosniff''
      in case WriteHeader (w\<lparr>HeaderMap := h\<rparr>) code of
           Returned w1 \<Rightarrow> Write w1 (error @ [CHR 0x0A])
         | Panicked p w1 \<Rightarrow> Panicked p w1)"

text \<open>
  What the caller receives (\<^verbatim>\<open>ResponseRecorder.Result\<close>): the recorded code, the headers
  as they stood at the first \<^verbatim>\<open>WriteHeader\<close> (the current map when the handler returned
  without writing), and the body.
\<close>

definition result_status :: "ResponseWriter \<Rightarrow> nat" where
  "result_status w = Code w"

definition result_header :: "ResponseWriter \<Rightarrow> header" where
  "result_header w = (if wroteHeader w then snapHeader w else HeaderMap w)"

definition result_body :: "ResponseWriter \<Rightarrow> string" where
  "result_body w = Body w"

subsection \<open>URLs\<close>

text \<open>
  Of a parsed URL (\<^verbatim>\<open>*url.URL\<close>) the code that is modelled reads and writes one field,
  \<^verbatim>\<open>Host\<close>. The other fields of the struct are the extension of the record, of a type
  \<open>'a\<close> that is left open, so the URLs are the values of type \<open>'a url_scheme\<close>.
\<close>

record url =
  Host :: string

text \<open>
  \<^verbatim>\<open>strings.LastIndex\<close> for a one-byte separator (\<open>-1\<close> when it does not occur),
  \<^verbatim>\<open>strings.TrimSuffix\<close>, and \<^verbatim>\<open>hasPort\<close> and \<^verbatim>\<open>removeEmptyPort\<close> of \<^verbatim>\<open>net/http\<close>: a host
  that ends in a colon with no port after it loses the colon.
\<close>

fun LastIndex_from :: "int \<Rightarrow> int \<Rightarrow> string \<Rightarrow> char \<Rightarrow> int" where
  "LastIndex_from i found [] c = found"
| "LastIndex_from i found (x # xs) c =
     LastIndex_from (i + 1) (if x = c then i else found) xs c"

definition LastIndex :: "string \<Rightarrow> char \<Rightarrow> int" where
  "LastIndex s c = LastIndex_from 0 (- 1) s c"

definition TrimSuffix :: "string \<Rightarrow> string \<Rightarrow> string" where
  "TrimSuffix s suffix =
     (if length suffix \<le> length s \<and> drop (length s - length suffix) s = suffix
      then take (length s - length suffix) s
      else s)"

definition hasPort :: "string \<Rightarrow> bool" where
  "hasPort s \<longleftrightarrow> LastIndex s (CHR '']'') < LastIndex s (CHR '':'')"

definition removeEmptyPort :: "string \<Rightarrow> string" where
  "removeEmptyPort host = (if hasPort host then TrimSuffix host '':'' else host)"

subsection \<open>Requests and responses\<close>

text \<open>
  The inbound request, as far as the handlers read it: the method, the path and the
  parsed query of \<^verbatim>\<open>r.URL\<close>, the header map, and the body. A body is a stream; the
  handler only ever hands it to \<^verbatim>\<open>io.ReadAll\<close>, so it is given by what that call returns:
  \<open>Some\<close> of the bytes, or \<open>None\<close> when the read fails.
\<close>

record request =
  Method :: string
  URL_Path :: string
  URL_Query :: url_Values
  Header :: header
  ReqBody :: "string option"

text \<open>
  The outbound \<^verbatim>\<open>*http.Request\<close> built with \<^verbatim>\<open>http.NewRequest\<close>. \<open>outBody = None\<close> is the
  \<^verbatim>\<open>nil\<close> body; \<open>Some b\<close> is a reader over the bytes \<open>b\<close>.
\<close>

record 'a client_request =
  outMethod :: string
  outURL :: "'a url_scheme"
  outHeader :: header
  outBody :: "string option"

text \<open>
  The \<^verbatim>\<open>*http.Response\<close> that \<^verbatim>\<open>client.Do\<close> returns. \<open>respHeader\<close> lists the entries of
  the header map in the order in which the \<^verbatim>\<open>range\<close> loop of the handler visits them
  (Go leaves that order open, so every order is a possible list). \<open>respBody\<close> is the
  body stream, again by what \<^verbatim>\<open>io.ReadAll\<close> returns on it.
\<close>

record response =
  StatusCode :: nat
  respHeader :: "(string \<times> string list) list"
  respBody :: "string option"

text \<open>
  What lies outside the repository and is left open here: URL parsing and printing
  (\<^verbatim>\<open>url.Parse\<close>, \<^verbatim>\<open>URL.String\<close>; \<open>None\<close> is the error return) and the network
  (\<^verbatim>\<open>client.Do\<close>; \<open>None\<close> is the error return). The handlers are functions of it.
\<close>

record 'a env =
  url_Parse :: "string \<Rightarrow> 'a url_scheme option"
  url_String :: "'a url_scheme \<Rightarrow> string"
  client_Do :: "'a client_request \<Rightarrow> response option"

text \<open>
  \<^verbatim>\<open>http.NewRequest(method, url, body)\<close>: an empty method means \<^verbatim>\<open>GET\<close>; the method must
  be a non-empty token; the URL string is parsed, and an empty port is removed from the
  host of the result; the new request has an empty header map. \<open>None\<close> is the error
  return.
\<close>

definition validMethod :: "string \<Rightarrow> bool" where
  "validMethod method \<longleftrightarrow> method \<noteq> [] \<and> list_all validHeaderFieldByte method"

definition NewRequest ::
  "'a env \<Rightarrow> string \<Rightarrow> string \<Rightarrow> string option \<Rightarrow> 'a client_request option" where
  "NewRequest env method url body =
     (let method = (if method = [] then ''GET'' else method)
      in if \<not> validMethod method then None
         else (case url_Parse env url of
                 None \<Rightarrow> None
               | Some u \<Rightarrow>
                   Some \<lparr>outMethod = method,
                         outURL = u\<lparr>Host := removeEmptyPort (Host u)\<rparr>,
                         outHeader = Map.empty, outBody = body\<rparr>))"

section \<open>The handlers\<close>

subsection \<open>healthHandler\<close>

text \<open>\<^verbatim>\<open>http.NotFound\<close> is \<^verbatim>\<open>Error(w, "404 page not found", StatusNotFound)\<close>.\<close>

definition http_NotFound :: "ResponseWriter \<Rightarrow> outcome" where
  "http_NotFound w = http_Error w ''404 page not found'' 404"

definition healthHandler :: "ResponseWriter \<Rightarrow> request \<Rightarrow> outcome" where
  "healthHandler w req =
     (if Method req \<noteq> ''GET'' then http_Error w ''Method not allowed'' 405
      else if URL_Path req \<noteq> ''/health'' then http_NotFound w
      else case WriteHeader w 200 of
             Returned w1 \<Rightarrow> Write w1 ''Server is healthy''
           | Panicked p w1 \<Rightarrow> Panicked p w1)"

subsection \<open>proxyHandler\<close>

text \<open>
  A handler returns nothing; what it does is write to \<open>w\<close> and call the network. Both
  effects are made explicit: the handler's value holds the response writer as the
  handler leaves it (\<open>rw\<close>), the list of the requests it handed to \<^verbatim>\<open>client.Do\<close>, in
  order (\<open>outbound\<close>), and the panic that ended it, if one did (\<open>panicked\<close>; then \<open>rw\<close> is
  the writer as it stood at the panic, and no response reaches the caller).
\<close>

record 'a exchange =
  rw :: ResponseWriter
  outbound :: "'a client_request list"
  panicked :: "panic option"

text \<open>The handler stops after a last call on the writer, having sent \<open>sent\<close>.\<close>

fun finish :: "outcome \<Rightarrow> 'a client_request list \<Rightarrow> 'a exchange" where
  "finish (Returned w) sent = \<lparr>rw = w, outbound = sent, panicked = None\<rparr>"
| "finish (Panicked p w) sent = \<lparr>rw = w, outbound = sent, panicked = Some p\<rparr>"

text \<open>
  The loops of lines 68 to 72: for every key of the response's header map and every value
  under it, \<^verbatim>\<open>w.Header().Add(key, value)\<close>.
\<close>

definition add_values :: "string \<Rightarrow> string list \<Rightarrow> header \<Rightarrow> header" where
  "add_values key vals h = fold (\<lambda>val h. Header_Add h key val) vals h"

definition copy_header :: "(string \<times> string list) list \<Rightarrow> header \<Rightarrow> header" where
  "copy_header entries h = fold (\<lambda>(key, vals) h. add_values key vals h) entries h"

text \<open>
  Lines 60 to 80: the request \<open>req\<close> is built; execute it and relay the response. A panic
  of \<^verbatim>\<open>w.WriteHeader(resp.StatusCode)\<close> in line 74 ends the handler there.
\<close>

definition relay :: "'a env \<Rightarrow> ResponseWriter \<Rightarrow> 'a client_request \<Rightarrow> 'a exchange" where
  "relay env w req =
     (case client_Do env req of
        None \<Rightarrow> finish (http_Error w ''GHISA: Failed to make request'' 500) [req]
      | Some resp \<Rightarrow>
          (let w = w\<lparr>HeaderMap := copy_header (respHeader resp) (HeaderMap w)\<rparr>
           in case WriteHeader w (StatusCode resp) of
                Panicked p w \<Rightarrow> finish (Panicked p w) [req]
              | Returned w \<Rightarrow>
                  (case respBody resp of
                     None \<Rightarrow>
                       finish (http_Error w ''GHISA: Failed to read response body'' 500) [req]
                   | Some body \<Rightarrow> finish (Write w body) [req])))"

text \<open>Lines 17 to 58, then \<open>relay\<close>.\<close>

definition proxyHandler :: "'a env \<Rightarrow> ResponseWriter \<Rightarrow> request \<Rightarrow> 'a exchange" where
  "proxyHandler env w r =
     (let h = Header_Set (HeaderMap w) ''Access-Control-Allow-Origin'' ''*'';
          h = Header_Set h ''Access-Control-Allow-Methods'' ''GET, POST, OPTIONS'';
          h = Header_Set h ''Access-Control-Allow-Headers'' ''Content-Type'';
          w = w\<lparr>HeaderMap := h\<rparr>
      in if Method r = ''OPTIONS'' then finish (Returned w) []
         else
           let targetURL = Values_Get (URL_Query r) ''url''
           in if targetURL = [] then
                finish (http_Error w ''Missing url parameter'' 400) []
              else
                case url_Parse env targetURL of
                  None \<Rightarrow> finish (http_Error w ''Invalid url parameter'' 400) []
                | Some proxyURL \<Rightarrow>
                    if Method r = ''POST'' then
                      (case ReqBody r of
                         None \<Rightarrow>
                           finish (http_Error w ''GHISA: Failed to read request body'' 500) []
                       | Some body \<Rightarrow>
                           (case NewRequest env ''POST'' (url_String env proxyURL) (Some body) of
                              None \<Rightarrow>
                                finish (http_Error w ''GHISA: Failed to create request'' 500) []
                            | Some req \<Rightarrow> relay env w (req\<lparr>outHeader := Header r\<rparr>)))
                    else
                      (case NewRequest env ''GET'' (url_String env proxyURL) None of
                         None \<Rightarrow>
                           finish (http_Error w ''GHISA: Failed to create request'' 500) []
                       | Some req \<Rightarrow> relay env w (req\<lparr>outHeader := Header r\<rparr>)))"

subsection \<open>The fixtures of the tests\<close>

text \<open>
  \<^verbatim>\<open>server_test.go\<close> runs the handler against a backend that answers a \<^verbatim>\<open>POST\<close> with the
  request's body and anything else with \<^verbatim>\<open>backend response\<close>, status 200 either way.
  The closed examples below run against it.

  For the URL library they use a table of what \<^verbatim>\<open>url.Parse\<close> and \<^verbatim>\<open>URL.String\<close> return at
  the URLs of the examples. The fields of a URL other than \<^verbatim>\<open>Host\<close> are stood for by the
  text that \<^verbatim>\<open>String\<close> prints for it.
  \<^item> \<^verbatim>\<open>http://%\<close> is rejected (the test "Invalid URL parameter"), and so is \<^verbatim>\<open>//%3E\<close>
    (an escape in the host).
  \<^item> \<^verbatim>\<open>/%2f>\<close> parses, to a URL with no host and the path \<^verbatim>\<open>//>\<close>, which is printed
    as \<^verbatim>\<open>//%3E\<close>.
  \<^item> \<^verbatim>\<open>http://host\<close> followed by nothing or by a path has the host \<^verbatim>\<open>host\<close> (a
    trailing colon included) and is printed as it was written.
\<close>

definition test_host :: "string \<Rightarrow> string" where
  "test_host s =
     (if take 7 s = ''http://'' then takeWhile (\<lambda>c. c \<noteq> CHR ''/'') (drop 7 s) else [])"

definition test_Parse :: "string \<Rightarrow> string url_scheme option" where
  "test_Parse s =
     (if s = ''http://%'' \<or> s = ''//%3E'' then None
      else if s = ''/%2f>'' then Some \<lparr>Host = [], \<dots> = ''//%3E''\<rparr>
      else Some \<lparr>Host = test_host s, \<dots> = s\<rparr>)"

definition backend :: "string client_request \<Rightarrow> response option" where
  "backend r =
     Some \<lparr>StatusCode = 200,
           respHeader = [(''Content-Type'', [''text/plain; charset=utf-8''])],
           respBody =
             Some (if outMethod r = ''POST''
                   then (case outBody r of None \<Rightarrow> [] | Some body \<Rightarrow> body)
                   else ''backend response'')\<rparr>"

definition test_env :: "string env" where
  "test_env = \<lparr>url_Parse = test_Parse, url_String = url.more, client_Do = backend\<rparr>"

text \<open>\<^verbatim>\<open>newTestRequest\<close> of the tests: the target in the query, a JSON content type.\<close>

definition newTestRequest :: "string \<Rightarrow> string \<Rightarrow> string \<Rightarrow> request" where
  "newTestRequest method targetURL body =
     \<lparr>Method = method, URL_Path = ''/'', URL_Query = [''url'' \<mapsto> [targetURL]],
      Header = [''Content-Type'' \<mapsto> [''application/json'']], ReqBody = Some body\<rparr>"

text \<open>
  Two more networks for closed examples: a target that sends a CORS header of its own,
  under a key that is not in canonical form, and the backend behind a server that
  answers with the status line \<^verbatim>\<open>HTTP/1.1 099\<close>, which the client accepts as the status
  code 99.
\<close>

definition upstream_with_cors :: "string client_request \<Rightarrow> response option" where
  "upstream_with_cors r =
     Some \<lparr>StatusCode = 200,
           respHeader = [(''access-control-allow-origin'', [''https://a.example'']),
                         (''X-Trace'', [''1'', ''2''])],
           respBody = Some ''ok''\<rparr>"

definition backend_099 :: "string client_request \<Rightarrow> response option" where
  "backend_099 r = map_option (\<lambda>resp. resp\<lparr>StatusCode := 99\<rparr>) (backend r)"

section \<open>Notions used to state the properties\<close>

text \<open>The header map of a fresh writer after lines 18 to 20 of \<^verbatim>\<open>proxyHandler\<close>.\<close>

definition cors_header :: header where
  "cors_header =
     [''Access-Control-Allow-Origin'' \<mapsto> [''*''],
      ''Access-Control-Allow-Methods'' \<mapsto> [''GET, POST, OPTIONS''],
      ''Access-Control-Allow-Headers'' \<mapsto> [''Content-Type'']]"

definition cors_writer :: ResponseWriter where
  "cors_writer = NewRecorder\<lparr>HeaderMap := cors_header\<rparr>"

text \<open>
  A header map carries the CORS headers when \<^verbatim>\<open>Get\<close> returns each of the three values,
  which is what \<^verbatim>\<open>checkCorsHeaders\<close> of the tests asks of a response.
\<close>

definition carries_cors :: "header \<Rightarrow> bool" where
  "carries_cors h \<longleftrightarrow>
     Header_Get h ''Access-Control-Allow-Origin'' = ''*'' \<and>
     Header_Get h ''Access-Control-Allow-Methods'' = ''GET, POST, OPTIONS'' \<and>
     Header_Get h ''Access-Control-Allow-Headers'' = ''Content-Type''"

text \<open>
  The values a response's header entries hold for the canonical key \<open>k\<close>: those of every
  entry whose key has the canonical form \<open>k\<close>, in the order of the entries.
\<close>

definition values_added :: "(string \<times> string list) list \<Rightarrow> string \<Rightarrow> string list" where
  "values_added entries k =
     concat (map snd (filter (\<lambda>(key, vals). CanonicalMIMEHeaderKey key = k) entries))"

text \<open>The header map \<^verbatim>\<open>http.Error\<close> leaves, given the one it finds.\<close>

definition error_header :: "header \<Rightarrow> header" where
  "error_header h =
     h(''Content-Length'' := None,
       ''Content-Type'' \<mapsto> [''text/plain; charset=utf-8''],
       ''X-Content-Type-Options'' \<mapsto> [''nosniff''])"

section \<open>Facts about the library\<close>

lemmas canon_unfold =
  CanonicalMIMEHeaderKey_def validHeaderFieldByte_def toUpper_def toLower_def
  lower_letters_def upper_letters_def

text \<open>The six keys the handlers and \<^verbatim>\<open>http.Error\<close> write are in canonical form.\<close>

lemma canon_acao:
  "CanonicalMIMEHeaderKey ''Access-Control-Allow-Origin'' = ''Access-Control-Allow-Origin''"
  by (simp add: canon_unfold)

lemma canon_acam:
  "CanonicalMIMEHeaderKey ''Access-Control-Allow-Methods'' = ''Access-Control-Allow-Methods''"
  by (simp add: canon_unfold)

lemma canon_acah:
  "CanonicalMIMEHeaderKey ''Access-Control-Allow-Headers'' = ''Access-Control-Allow-Headers''"
  by (simp add: canon_unfold)

lemma canon_cl: "CanonicalMIMEHeaderKey ''Content-Length'' = ''Content-Length''"
  by (simp add: canon_unfold)

lemma canon_ct: "CanonicalMIMEHeaderKey ''Content-Type'' = ''Content-Type''"
  by (simp add: canon_unfold)

lemma canon_xcto:
  "CanonicalMIMEHeaderKey ''X-Content-Type-Options'' = ''X-Content-Type-Options''"
  by (simp add: canon_unfold)

lemmas canon_keys = canon_acao canon_acam canon_acah canon_cl canon_ct canon_xcto

lemma canon_lower_case: "CanonicalMIMEHeaderKey ''content-TYPE'' = ''Content-Type''"
  by (simp add: canon_unfold)

lemma canon_not_a_token: "CanonicalMIMEHeaderKey ''content TYPE'' = ''content TYPE''"
  by (simp add: canon_unfold)

lemma valid_GET: "validMethod ''GET''"
  by (simp add: validMethod_def validHeaderFieldByte_def lower_letters_def upper_letters_def)

lemma valid_POST: "validMethod ''POST''"
  by (simp add: validMethod_def validHeaderFieldByte_def lower_letters_def upper_letters_def)

lemma NewRequest_GET:
  "NewRequest env ''GET'' s b =
     (case url_Parse env s of
        None \<Rightarrow> None
      | Some u \<Rightarrow>
          Some \<lparr>outMethod = ''GET'', outURL = u\<lparr>Host := removeEmptyPort (Host u)\<rparr>,
                outHeader = Map.empty, outBody = b\<rparr>)"
  using valid_GET by (simp add: NewRequest_def)

lemma NewRequest_POST:
  "NewRequest env ''POST'' s b =
     (case url_Parse env s of
        None \<Rightarrow> None
      | Some u \<Rightarrow>
          Some \<lparr>outMethod = ''POST'', outURL = u\<lparr>Host := removeEmptyPort (Host u)\<rparr>,
                outHeader = Map.empty, outBody = b\<rparr>)"
  using valid_POST by (simp add: NewRequest_def)

text \<open>\<^verbatim>\<open>Get\<close> on the query returns the empty string for a key that is absent, has no value,
  or has the empty string as its first value.\<close>

lemma Values_Get_empty_iff:
  "Values_Get v key = [] \<longleftrightarrow>
     v key = None \<or> v key = Some [] \<or> (\<exists>rest. v key = Some ([] # rest))"
  by (simp add: Values_Get_def split: option.splits list.splits)


text \<open>\<^verbatim>\<open>removeEmptyPort\<close> at the hosts of the examples.\<close>

lemma removeEmptyPort_examples:
  "removeEmptyPort [] = []"
  "removeEmptyPort ''backend'' = ''backend''"
  "removeEmptyPort ''backend:'' = ''backend''"
  "removeEmptyPort ''backend:8080'' = ''backend:8080''"
  "removeEmptyPort ''[::1]:'' = ''[::1]''"
  "removeEmptyPort ''[::1]'' = ''[::1]''"
  by (simp_all add: removeEmptyPort_def hasPort_def LastIndex_def TrimSuffix_def)

text \<open>
  \<^verbatim>\<open>WriteHeader\<close>, \<^verbatim>\<open>Write\<close> and \<^verbatim>\<open>http.Error\<close> on a writer that has sent no header yet,
  for a status code in range and for one out of range, and on a writer that has sent
  its header.
\<close>

lemma WriteHeader_fresh:
  assumes "\<not> wroteHeader w" and "100 \<le> code" and "code \<le> 999"
  shows "WriteHeader w code =
           Returned (w\<lparr>wroteHeader := True, Code := code, snapHeader := HeaderMap w\<rparr>)"
  using assms by (simp add: WriteHeader_def checkWriteHeaderCode_def)

lemma WriteHeader_invalid:
  assumes "\<not> wroteHeader w" and "code < 100 \<or> 999 < code"
  shows "WriteHeader w code = Panicked (InvalidWriteHeaderCode code) w"
  using assms by (auto simp add: WriteHeader_def checkWriteHeaderCode_def)

lemma Write_committed:
  "wroteHeader w \<Longrightarrow> Write w buf = Returned (w\<lparr>Body := Body w @ buf\<rparr>)"
  by (simp add: Write_def)

lemma http_Error_fresh:
  assumes "\<not> wroteHeader w" and "100 \<le> code" and "code \<le> 999"
  shows "http_Error w msg code =
           Returned (w\<lparr>HeaderMap := error_header (HeaderMap w), wroteHeader := True,
                       Code := code, snapHeader := error_header (HeaderMap w),
                       Body := Body w @ msg @ [CHR 0x0A]\<rparr>)"
  using assms
  by (simp add: http_Error_def Let_def WriteHeader_fresh Write_committed error_header_def
      Header_Set_def Header_Del_def canon_keys)

lemma http_Error_committed:
  assumes "wroteHeader w"
  shows "http_Error w msg code =
           Returned (w\<lparr>HeaderMap := error_header (HeaderMap w),
                       Body := Body w @ msg @ [CHR 0x0A]\<rparr>)"
  using assms
  by (simp add: http_Error_def Let_def WriteHeader_def Write_committed error_header_def
      Header_Set_def Header_Del_def canon_keys)

subsection \<open>The header copy, key by key\<close>

lemma Header_Add_lookup:
  "Header_Add h key val k =
     (if CanonicalMIMEHeaderKey key = k
      then Some ((case h k of None \<Rightarrow> [] | Some vs \<Rightarrow> vs) @ [val])
      else h k)"
  by (auto simp add: Header_Add_def Let_def)

lemma add_values_lookup:
  "add_values key vals h k =
     (if CanonicalMIMEHeaderKey key = k \<and> vals \<noteq> []
      then Some ((case h k of None \<Rightarrow> [] | Some vs \<Rightarrow> vs) @ vals)
      else h k)"
proof (induction vals arbitrary: h)
  case Nil
  then show ?case by (simp add: add_values_def)
next
  case (Cons v vs)
  have step: "add_values key (v # vs) h = add_values key vs (Header_Add h key v)"
    by (simp add: add_values_def)
  show ?case
    unfolding step Cons.IH
    by (simp add: Header_Add_lookup split: option.splits)
qed

lemma copy_header_lookup:
  "copy_header entries h k =
     (if values_added entries k = [] then h k
      else Some ((case h k of None \<Rightarrow> [] | Some vs \<Rightarrow> vs) @ values_added entries k))"
proof (induction entries arbitrary: h)
  case Nil
  then show ?case by (simp add: copy_header_def values_added_def)
next
  case (Cons e es)
  obtain key vals where e: "e = (key, vals)" by (cases e)
  have step: "copy_header (e # es) h = copy_header es (add_values key vals h)"
    by (simp add: copy_header_def e)
  have va: "values_added (e # es) k =
      (if CanonicalMIMEHeaderKey key = k then vals else []) @ values_added es k"
    by (simp add: values_added_def e)
  show ?case
    unfolding step Cons.IH va
    by (simp add: add_values_lookup split: option.splits)
qed

subsection \<open>The CORS headers survive what is done to the map afterwards\<close>

lemma cors_header_lookup:
  "cors_header ''Access-Control-Allow-Origin'' = Some [''*'']"
  "cors_header ''Access-Control-Allow-Methods'' = Some [''GET, POST, OPTIONS'']"
  "cors_header ''Access-Control-Allow-Headers'' = Some [''Content-Type'']"
  by (simp_all add: cors_header_def)

lemma carries_cors_cors_header: "carries_cors cors_header"
  by (simp add: carries_cors_def Header_Get_def canon_keys cors_header_lookup)

lemma carries_cors_copy: "carries_cors (copy_header entries cors_header)"
  by (simp add: carries_cors_def Header_Get_def canon_keys copy_header_lookup
      cors_header_lookup)

lemma carries_cors_error: "carries_cors h \<Longrightarrow> carries_cors (error_header h)"
  by (simp add: carries_cors_def Header_Get_def canon_keys error_header_def)

section \<open>Facts about the handlers\<close>

lemma set_cors:
  "Header_Set (Header_Set (Header_Set Map.empty ''Access-Control-Allow-Origin'' ''*'')
      ''Access-Control-Allow-Methods'' ''GET, POST, OPTIONS'')
      ''Access-Control-Allow-Headers'' ''Content-Type'' = cors_header"
  by (simp add: Header_Set_def canon_keys cors_header_def)

lemma cors_writer_simps:
  "HeaderMap cors_writer = cors_header" "\<not> wroteHeader cors_writer"
  "Body cors_writer = []" "Code cors_writer = 200"
  by (simp_all add: cors_writer_def NewRecorder_def)

text \<open>
  The response of \<^verbatim>\<open>http.Error\<close> on the writer that holds the CORS headers, with one of
  the status codes the handler passes.
\<close>

lemma error_response:
  assumes "100 \<le> code" and "code \<le> 999"
  shows "finish (http_Error cors_writer msg code) sent =
           \<lparr>rw = \<lparr>HeaderMap = error_header cors_header, wroteHeader = True, Code = code,
                  snapHeader = error_header cors_header, Body = msg @ [CHR 0x0A]\<rparr>,
            outbound = sent, panicked = None\<rparr>"
  using assms by (simp add: http_Error_fresh cors_writer_def NewRecorder_def)

text \<open>
  \<^verbatim>\<open>proxyHandler\<close> on a fresh writer, with the three \<^verbatim>\<open>Set\<close> calls and the two
  \<^verbatim>\<open>NewRequest\<close> calls worked out: the branches of the source, one by one.
\<close>

lemma proxyHandler_unfold:
  "proxyHandler env NewRecorder r =
     (if Method r = ''OPTIONS'' then \<lparr>rw = cors_writer, outbound = [], panicked = None\<rparr>
      else if Values_Get (URL_Query r) ''url'' = [] then
        finish (http_Error cors_writer ''Missing url parameter'' 400) []
      else
        case url_Parse env (Values_Get (URL_Query r) ''url'') of
          None \<Rightarrow> finish (http_Error cors_writer ''Invalid url parameter'' 400) []
        | Some proxyURL \<Rightarrow>
            if Method r = ''POST'' then
              (case ReqBody r of
                 None \<Rightarrow>
                   finish (http_Error cors_writer ''GHISA: Failed to read request body'' 500) []
               | Some body \<Rightarrow>
                   (case url_Parse env (url_String env proxyURL) of
                      None \<Rightarrow>
                        finish (http_Error cors_writer ''GHISA: Failed to create request'' 500) []
                    | Some u \<Rightarrow>
                        relay env cors_writer
                          \<lparr>outMethod = ''POST'',
                           outURL = u\<lparr>Host := removeEmptyPort (Host u)\<rparr>,
                           outHeader = Header r, outBody = Some body\<rparr>))
            else
              (case url_Parse env (url_String env proxyURL) of
                 None \<Rightarrow>
                   finish (http_Error cors_writer ''GHISA: Failed to create request'' 500) []
               | Some u \<Rightarrow>
                   relay env cors_writer
                     \<lparr>outMethod = ''GET'',
                      outURL = u\<lparr>Host := removeEmptyPort (Host u)\<rparr>,
                      outHeader = Header r, outBody = None\<rparr>))"
  unfolding proxyHandler_def Let_def NewRequest_GET NewRequest_POST
  by (simp add: cors_writer_def NewRecorder_def set_cors split: option.splits)

lemma outbound_finish: "outbound (finish out sent) = sent"
  by (cases out) simp_all

lemma rw_finish: "rw (finish out sent) = writer out"
  by (cases out) simp_all

lemma relay_outbound: "outbound (relay env w req) = [req]"
  by (simp add: relay_def Let_def outbound_finish split: option.splits outcome.splits)

lemma relay_success:
  assumes "client_Do env req = Some resp" and "respBody resp = Some body"
    and "100 \<le> StatusCode resp" and "StatusCode resp \<le> 999"
  shows "relay env cors_writer req =
           \<lparr>rw = \<lparr>HeaderMap = copy_header (respHeader resp) cors_header, wroteHeader = True,
                  Code = StatusCode resp,
                  snapHeader = copy_header (respHeader resp) cors_header, Body = body\<rparr>,
            outbound = [req], panicked = None\<rparr>"
  using assms
  by (simp add: relay_def Let_def WriteHeader_fresh Write_committed cors_writer_def
      NewRecorder_def)

lemma relay_panic:
  assumes "client_Do env req = Some resp"
    and "StatusCode resp < 100 \<or> 999 < StatusCode resp"
  shows "relay env cors_writer req =
           \<lparr>rw = cors_writer\<lparr>HeaderMap := copy_header (respHeader resp) cors_header\<rparr>,
            outbound = [req], panicked = Some (InvalidWriteHeaderCode (StatusCode resp))\<rparr>"
  using assms
  by (simp add: relay_def Let_def WriteHeader_invalid cors_writer_simps)

lemma relay_sent_header:
  assumes "client_Do env req = Some resp"
  shows "result_header (rw (relay env cors_writer req)) =
           copy_header (respHeader resp) cors_header"
proof (cases "StatusCode resp < 100 \<or> 999 < StatusCode resp")
  case True
  with assms show ?thesis
    by (simp add: relay_panic result_header_def cors_writer_simps)
next
  case False
  then have ok: "100 \<le> StatusCode resp" "StatusCode resp \<le> 999" by auto
  let ?w = "cors_writer\<lparr>HeaderMap := copy_header (respHeader resp) cors_header\<rparr>"
  have wh: "WriteHeader ?w (StatusCode resp) =
      Returned (?w\<lparr>wroteHeader := True, Code := StatusCode resp, snapHeader := HeaderMap ?w\<rparr>)"
    by (rule WriteHeader_fresh) (simp_all add: cors_writer_simps ok)
  show ?thesis
    using assms
    by (simp add: relay_def Let_def cors_writer_simps wh http_Error_committed Write_committed
        result_header_def split: option.splits)
qed

lemma cors_writer_header: "carries_cors (result_header cors_writer)"
  by (simp add: result_header_def cors_writer_simps carries_cors_cors_header)

lemma error_response_header:
  assumes "100 \<le> code" and "code \<le> 999"
  shows "carries_cors (result_header (rw (finish (http_Error cors_writer msg code) sent)))"
  using assms
  by (simp add: error_response result_header_def carries_cors_error carries_cors_cors_header)

lemma relay_header: "carries_cors (result_header (rw (relay env cors_writer req)))"
proof (cases "client_Do env req")
  case None
  then show ?thesis
    by (simp add: relay_def error_response_header)
next
  case (Some resp)
  then show ?thesis
    by (simp add: relay_sent_header carries_cors_copy)
qed

lemma proxyHandler_outbound_cases:
  assumes "outbound (proxyHandler env NewRecorder r) = [req]"
  shows "rw (proxyHandler env NewRecorder r) = rw (relay env cors_writer req)"
  using assms unfolding proxyHandler_unfold
  by (auto simp add: relay_outbound outbound_finish split: option.splits if_splits)

lemma proxyHandler_carries_cors:
  "carries_cors (result_header (rw (proxyHandler env NewRecorder r)))"
  unfolding proxyHandler_unfold
  by (simp add: relay_header error_response_header cors_writer_header split: option.splits)

lemma test_env_simps:
  "url_Parse test_env = test_Parse"
  "url_String test_env = url.more"
  "client_Do test_env = backend"
  by (simp_all add: test_env_def)

lemma test_Parse_examples:
  "test_Parse ''http://%'' = None"
  "test_Parse ''//%3E'' = None"
  "test_Parse ''/%2f>'' = Some \<lparr>Host = [], \<dots> = ''//%3E''\<rparr>"
  "test_Parse ''http://backend'' = Some \<lparr>Host = ''backend'', \<dots> = ''http://backend''\<rparr>"
  "test_Parse ''http://backend:/x'' = Some \<lparr>Host = ''backend:'', \<dots> = ''http://backend:/x''\<rparr>"
  by (simp_all add: test_Parse_def test_host_def)

section \<open>The forwarding handler\<close>

text \<open>
  All statements are about \<^verbatim>\<open>proxyHandler\<close> on a fresh response writer, for every
  environment \<open>env\<close> (URL library and network) and every inbound request \<open>r\<close>.
\<close>

subsection \<open>The method of the outbound request\<close>

text \<open>
  C1, as amended. Take an inbound request whose method is neither \<^verbatim>\<open>OPTIONS\<close> nor \<^verbatim>\<open>POST\<close>
  and whose \<^verbatim>\<open>url\<close> parameter is present and parses. The handler prints the parsed URL
  and hands the text to \<^verbatim>\<open>http.NewRequest\<close>, which parses it again.
  \<^item> When that succeeds, the handler builds the outbound request with the method \<^verbatim>\<open>GET\<close>,
    whatever the inbound method is, with no body, for the URL so parsed (an empty port
    removed from its host), and with the inbound header map as its headers; that request
    is the one request handed to the network.
  \<^item> When \<^verbatim>\<open>http.NewRequest\<close> rejects the text, no request is built or sent, and the
    response has status 500 and the body \<^verbatim>\<open>GHISA: Failed to create request\<close> followed by
    a newline.
\<close>

theorem other_methods_forwarded_as_GET:
  assumes "Method r \<noteq> ''OPTIONS''" and "Method r \<noteq> ''POST''"
    and "Values_Get (URL_Query r) ''url'' = target" and "target \<noteq> []"
    and "url_Parse env target = Some proxyURL"
  shows "case url_Parse env (url_String env proxyURL) of
           Some u \<Rightarrow>
             outbound (proxyHandler env NewRecorder r) =
               [\<lparr>outMethod = ''GET'', outURL = u\<lparr>Host := removeEmptyPort (Host u)\<rparr>,
                 outHeader = Header r, outBody = None\<rparr>]
         | None \<Rightarrow>
             outbound (proxyHandler env NewRecorder r) = [] \<and>
             panicked (proxyHandler env NewRecorder r) = None \<and>
             result_status (rw (proxyHandler env NewRecorder r)) = 500 \<and>
             result_body (rw (proxyHandler env NewRecorder r)) =
               ''GHISA: Failed to create request'' @ [CHR 0x0A]"
proof (cases "url_Parse env (url_String env proxyURL)")
  case None
  with assms have "proxyHandler env NewRecorder r =
      finish (http_Error cors_writer ''GHISA: Failed to create request'' 500) []"
    unfolding proxyHandler_unfold by simp
  with None show ?thesis
    by (simp add: error_response result_status_def result_body_def)
next
  case (Some u)
  with assms show ?thesis
    unfolding proxyHandler_unfold by (simp add: relay_outbound)
qed

text \<open>
  An inbound \<^verbatim>\<open>DELETE\<close> for the backend of the tests goes out as a \<^verbatim>\<open>GET\<close>; one for
  \<^verbatim>\<open>/%2f>\<close>, whose printed form \<^verbatim>\<open>//%3E\<close> does not parse, is answered with status 500.
\<close>

theorem other_methods_forwarded_as_GET_witness:
  "outbound (proxyHandler test_env NewRecorder (newTestRequest ''DELETE'' ''http://backend'' [])) =
     [\<lparr>outMethod = ''GET'',
       outURL = \<lparr>Host = ''backend'', \<dots> = ''http://backend''\<rparr>,
       outHeader = [''Content-Type'' \<mapsto> [''application/json'']], outBody = None\<rparr>] \<and>
   outbound (proxyHandler test_env NewRecorder (newTestRequest ''DELETE'' ''/%2f>'' [])) = [] \<and>
   result_status (rw (proxyHandler test_env NewRecorder (newTestRequest ''DELETE'' ''/%2f>'' [])))
     = 500"
  using other_methods_forwarded_as_GET
    [of "newTestRequest ''DELETE'' ''http://backend'' []" "''http://backend''" test_env
      "\<lparr>Host = ''backend'', \<dots> = ''http://backend''\<rparr>"]
    other_methods_forwarded_as_GET
    [of "newTestRequest ''DELETE'' ''/%2f>'' []" "''/%2f>''" test_env
      "\<lparr>Host = [], \<dots> = ''//%3E''\<rparr>"]
  by (simp add: newTestRequest_def Values_Get_def test_env_simps test_Parse_examples
      removeEmptyPort_examples)

text \<open>
  C1 as the specification words it asks for the inbound method on the outbound request.
  The inbound \<^verbatim>\<open>DELETE\<close> below meets the claim's conditions (its \<^verbatim>\<open>url\<close> parameter is
  present and parses), and the one outbound request has the method \<^verbatim>\<open>GET\<close>, not
  \<^verbatim>\<open>DELETE\<close>.
\<close>

theorem same_method_counterexample:
  "Method (newTestRequest ''DELETE'' ''http://backend'' []) = ''DELETE'' \<and>
   url_Parse test_env
     (Values_Get (URL_Query (newTestRequest ''DELETE'' ''http://backend'' [])) ''url'') =
     Some \<lparr>Host = ''backend'', \<dots> = ''http://backend''\<rparr> \<and>
   map outMethod
     (outbound (proxyHandler test_env NewRecorder (newTestRequest ''DELETE'' ''http://backend'' [])))
     = [''GET''] \<and>
   map outMethod
     (outbound (proxyHandler test_env NewRecorder (newTestRequest ''DELETE'' ''http://backend'' [])))
     \<noteq> [Method (newTestRequest ''DELETE'' ''http://backend'' [])]"
  unfolding proxyHandler_unfold
  by (simp add: newTestRequest_def Values_Get_def test_env_simps test_Parse_examples
      relay_outbound)

subsection \<open>Validation failures\<close>

text \<open>
  C2. For an inbound request whose method is not \<^verbatim>\<open>OPTIONS\<close> and whose \<^verbatim>\<open>url\<close> query
  parameter is absent or empty (\<^verbatim>\<open>Get\<close> returns the empty string, see
  \<open>Values_Get_empty_iff\<close>), the response has status 400 and the body
  \<^verbatim>\<open>Missing url parameter\<close> followed by a newline, and no request goes to the network.
\<close>

theorem missing_url_parameter:
  assumes "Method r \<noteq> ''OPTIONS''" and "Values_Get (URL_Query r) ''url'' = []"
  shows "result_status (rw (proxyHandler env NewRecorder r)) = 400 \<and>
         result_body (rw (proxyHandler env NewRecorder r)) =
           ''Missing url parameter'' @ [CHR 0x0A] \<and>
         outbound (proxyHandler env NewRecorder r) = [] \<and>
         panicked (proxyHandler env NewRecorder r) = None"
proof -
  from assms have "proxyHandler env NewRecorder r =
      finish (http_Error cors_writer ''Missing url parameter'' 400) []"
    unfolding proxyHandler_unfold by simp
  then show ?thesis
    by (simp add: error_response result_status_def result_body_def)
qed

text \<open>The test "Missing URL parameter": a \<^verbatim>\<open>GET\<close> of \<^verbatim>\<open>/\<close> with no query.\<close>

theorem missing_url_parameter_witness:
  "Method ((newTestRequest ''GET'' [] [])\<lparr>URL_Query := Map.empty\<rparr>) \<noteq> ''OPTIONS'' \<and>
   Values_Get (URL_Query ((newTestRequest ''GET'' [] [])\<lparr>URL_Query := Map.empty\<rparr>)) ''url'' = [] \<and>
   result_status
     (rw (proxyHandler test_env NewRecorder
            ((newTestRequest ''GET'' [] [])\<lparr>URL_Query := Map.empty\<rparr>))) = 400 \<and>
   result_body
     (rw (proxyHandler test_env NewRecorder
            ((newTestRequest ''GET'' [] [])\<lparr>URL_Query := Map.empty\<rparr>))) =
     ''Missing url parameter'' @ [CHR 0x0A] \<and>
   outbound
     (proxyHandler test_env NewRecorder
        ((newTestRequest ''GET'' [] [])\<lparr>URL_Query := Map.empty\<rparr>)) = []"
proof -
  let ?r = "(newTestRequest ''GET'' [] [])\<lparr>URL_Query := Map.empty\<rparr>"
  have m: "Method ?r \<noteq> ''OPTIONS''"
    by (simp add: newTestRequest_def)
  have q: "Values_Get (URL_Query ?r) ''url'' = []"
    by (simp add: Values_Get_def)
  from missing_url_parameter [OF m q, of test_env] m q show ?thesis by simp
qed

text \<open>
  C3. For an inbound request whose method is not \<^verbatim>\<open>OPTIONS\<close> and whose non-empty \<^verbatim>\<open>url\<close>
  parameter \<^verbatim>\<open>url.Parse\<close> rejects, the response has status 400 and the body
  \<^verbatim>\<open>Invalid url parameter\<close> followed by a newline, and no request goes to the network.
\<close>

theorem invalid_url_parameter:
  assumes "Method r \<noteq> ''OPTIONS''"
    and "Values_Get (URL_Query r) ''url'' = target" and "target \<noteq> []"
    and "url_Parse env target = None"
  shows "result_status (rw (proxyHandler env NewRecorder r)) = 400 \<and>
         result_body (rw (proxyHandler env NewRecorder r)) =
           ''Invalid url parameter'' @ [CHR 0x0A] \<and>
         outbound (proxyHandler env NewRecorder r) = [] \<and>
         panicked (proxyHandler env NewRecorder r) = None"
proof -
  from assms have "proxyHandler env NewRecorder r =
      finish (http_Error cors_writer ''Invalid url parameter'' 400) []"
    unfolding proxyHandler_unfold by simp
  then show ?thesis
    by (simp add: error_response result_status_def result_body_def)
qed

text \<open>The test "Invalid URL parameter": the target \<^verbatim>\<open>http://%\<close>.\<close>

theorem invalid_url_parameter_witness:
  "Method (newTestRequest ''GET'' ''http://%'' []) \<noteq> ''OPTIONS'' \<and>
   Values_Get (URL_Query (newTestRequest ''GET'' ''http://%'' [])) ''url'' = ''http://%'' \<and>
   url_Parse test_env ''http://%'' = None \<and>
   result_status
     (rw (proxyHandler test_env NewRecorder (newTestRequest ''GET'' ''http://%'' []))) = 400 \<and>
   result_body
     (rw (proxyHandler test_env NewRecorder (newTestRequest ''GET'' ''http://%'' []))) =
     ''Invalid url parameter'' @ [CHR 0x0A] \<and>
   outbound (proxyHandler test_env NewRecorder (newTestRequest ''GET'' ''http://%'' [])) = []"
proof -
  have m: "Method (newTestRequest ''GET'' ''http://%'' []) \<noteq> ''OPTIONS''"
    by (simp add: newTestRequest_def)
  have q: "Values_Get (URL_Query (newTestRequest ''GET'' ''http://%'' [])) ''url'' = ''http://%''"
    by (simp add: newTestRequest_def Values_Get_def)
  have t: "''http://%'' \<noteq> []" by simp
  have p: "url_Parse test_env ''http://%'' = None"
    by (simp add: test_env_simps test_Parse_examples)
  from invalid_url_parameter [OF m q t p] m q p show ?thesis by simp
qed

subsection \<open>The preflight short circuit\<close>

text \<open>
  C4. For an inbound request with the method \<^verbatim>\<open>OPTIONS\<close> the handler returns at once: it
  writes no status, so the response has the default status 200, and no body; the
  response headers are the three CORS headers and nothing else; no request goes to the
  network; and neither the query nor the environment is looked at: the outcome is the
  same for every query and every environment.
\<close>

theorem options_short_circuit:
  assumes "Method r = ''OPTIONS''"
  shows "result_status (rw (proxyHandler env NewRecorder r)) = 200 \<and>
         \<not> wroteHeader (rw (proxyHandler env NewRecorder r)) \<and>
         result_body (rw (proxyHandler env NewRecorder r)) = [] \<and>
         result_header (rw (proxyHandler env NewRecorder r)) =
           [''Access-Control-Allow-Origin'' \<mapsto> [''*''],
            ''Access-Control-Allow-Methods'' \<mapsto> [''GET, POST, OPTIONS''],
            ''Access-Control-Allow-Headers'' \<mapsto> [''Content-Type'']] \<and>
         outbound (proxyHandler env NewRecorder r) = [] \<and>
         panicked (proxyHandler env NewRecorder r) = None \<and>
         (\<forall>env' q. proxyHandler env' NewRecorder (r\<lparr>URL_Query := q\<rparr>) =
                    proxyHandler env NewRecorder r)"
  using assms unfolding proxyHandler_unfold
  by (simp add: result_status_def result_body_def result_header_def cors_writer_simps
      cors_header_def)

text \<open>An \<^verbatim>\<open>OPTIONS\<close> request whose target would not parse.\<close>

theorem options_short_circuit_witness:
  "Method (newTestRequest ''OPTIONS'' ''http://%'' []) = ''OPTIONS'' \<and>
   result_status
     (rw (proxyHandler test_env NewRecorder (newTestRequest ''OPTIONS'' ''http://%'' []))) = 200 \<and>
   result_body
     (rw (proxyHandler test_env NewRecorder (newTestRequest ''OPTIONS'' ''http://%'' []))) = [] \<and>
   outbound (proxyHandler test_env NewRecorder (newTestRequest ''OPTIONS'' ''http://%'' [])) = []"
proof -
  have m: "Method (newTestRequest ''OPTIONS'' ''http://%'' []) = ''OPTIONS''"
    by (simp add: newTestRequest_def)
  from options_short_circuit [OF m, of test_env] m show ?thesis by simp
qed

subsection \<open>The CORS headers\<close>

text \<open>
  C5. Whatever the environment and the request, and so on every path through the
  handler (the \<^verbatim>\<open>OPTIONS\<close> return, the 400 and the 500 responses, the relayed response),
  the headers of the response hold \<^verbatim>\<open>Access-Control-Allow-Origin: *\<close>,
  \<^verbatim>\<open>Access-Control-Allow-Methods: GET, POST, OPTIONS\<close> and
  \<^verbatim>\<open>Access-Control-Allow-Headers: Content-Type\<close>, each as the first value under its key.
\<close>

theorem cors_headers_on_every_path:
  "Header_Get (result_header (rw (proxyHandler env NewRecorder r)))
     ''Access-Control-Allow-Origin'' = ''*'' \<and>
   Header_Get (result_header (rw (proxyHandler env NewRecorder r)))
     ''Access-Control-Allow-Methods'' = ''GET, POST, OPTIONS'' \<and>
   Header_Get (result_header (rw (proxyHandler env NewRecorder r)))
     ''Access-Control-Allow-Headers'' = ''Content-Type''"
  using proxyHandler_carries_cors [of env r] by (simp add: carries_cors_def)

subsection \<open>Relaying the response\<close>




text \<open>
  C7. Whenever the handler's outbound request \<open>req\<close> is executed with success (the
  network returns \<open>resp\<close>), the headers of the response to the caller are, under every
  key \<open>k\<close>, the values the three CORS headers hold under \<open>k\<close> followed by the values the
  entries of \<open>resp\<close> hold for \<open>k\<close>, in their order: every value of every key of \<open>resp\<close> is
  appended, none replaces another. In particular each CORS header is still the first
  value under its key.
\<close>

theorem response_headers_added:
  assumes "outbound (proxyHandler env NewRecorder r) = [req]"
    and "client_Do env req = Some resp"
  shows "result_header (rw (proxyHandler env NewRecorder r)) k =
           (if values_added (respHeader resp) k = [] then cors_header k
            else Some ((case cors_header k of None \<Rightarrow> [] | Some vs \<Rightarrow> vs)
                       @ values_added (respHeader resp) k)) \<and>
         Header_Get (result_header (rw (proxyHandler env NewRecorder r)))
           ''Access-Control-Allow-Origin'' = ''*'' \<and>
         Header_Get (result_header (rw (proxyHandler env NewRecorder r)))
           ''Access-Control-Allow-Methods'' = ''GET, POST, OPTIONS'' \<and>
         Header_Get (result_header (rw (proxyHandler env NewRecorder r)))
           ''Access-Control-Allow-Headers'' = ''Content-Type''"
proof -
  have "result_header (rw (proxyHandler env NewRecorder r)) =
          copy_header (respHeader resp) cors_header"
    using assms by (simp add: proxyHandler_outbound_cases relay_sent_header)
  then show ?thesis
    using carries_cors_copy [of "respHeader resp"]
    by (simp add: copy_header_lookup carries_cors_def)
qed

text \<open>
  A target that sends \<^verbatim>\<open>access-control-allow-origin: https://a.example\<close>: its value comes
  second under the canonical key, after the handler's \<^verbatim>\<open>*\<close>.
\<close>

theorem response_headers_added_witness:
  "result_header
     (rw (proxyHandler (test_env\<lparr>client_Do := upstream_with_cors\<rparr>) NewRecorder
            (newTestRequest ''GET'' ''http://backend'' [])))
     ''Access-Control-Allow-Origin'' = Some [''*'', ''https://a.example''] \<and>
   Header_Get
     (result_header
        (rw (proxyHandler (test_env\<lparr>client_Do := upstream_with_cors\<rparr>) NewRecorder
               (newTestRequest ''GET'' ''http://backend'' []))))
     ''Access-Control-Allow-Origin'' = ''*''"
proof -
  let ?env = "test_env\<lparr>client_Do := upstream_with_cors\<rparr>"
  let ?r = "newTestRequest ''GET'' ''http://backend'' []"
  let ?req = "\<lparr>outMethod = ''GET'', outURL = \<lparr>Host = ''backend'', \<dots> = ''http://backend''\<rparr>,
      outHeader = Header ?r, outBody = None\<rparr>"
  let ?resp = "\<lparr>StatusCode = 200,
      respHeader = [(''access-control-allow-origin'', [''https://a.example'']),
                    (''X-Trace'', [''1'', ''2''])],
      respBody = Some ''ok''\<rparr>"
  have o: "outbound (proxyHandler ?env NewRecorder ?r) = [?req]"
    unfolding proxyHandler_unfold
    by (simp add: newTestRequest_def Values_Get_def test_env_def test_Parse_examples
        removeEmptyPort_examples relay_outbound)
  have d: "client_Do ?env ?req = Some ?resp"
    by (simp add: upstream_with_cors_def)
  have v: "values_added (respHeader ?resp) ''Access-Control-Allow-Origin'' =
      [''https://a.example'']"
    by (simp add: values_added_def canon_unfold)
  from response_headers_added [OF o d, of "''Access-Control-Allow-Origin''"] v
  show ?thesis by (simp add: cors_header_def)
qed

subsection \<open>Forwarding a POST\<close>

text \<open>
  C8, as amended. Take a \<^verbatim>\<open>POST\<close> whose \<^verbatim>\<open>url\<close> parameter is present and parses and whose
  body is read with success. The handler prints the parsed URL and hands the text to
  \<^verbatim>\<open>http.NewRequest\<close>, which parses it again.
  \<^item> When that succeeds, the one outbound request is a \<^verbatim>\<open>POST\<close> for the URL so parsed (an
    empty port removed from its host) whose body is the inbound body and whose header
    map is the inbound header map. Hence, when the target answers that request with a
    status code from 100 to 999 and a body that is the request's body, the handler
    returns and the body of the response to the caller is the inbound body.
  \<^item> When \<^verbatim>\<open>http.NewRequest\<close> rejects the text, no request is built or sent, and the
    response has status 500 and the body \<^verbatim>\<open>GHISA: Failed to create request\<close> followed by
    a newline.
\<close>

theorem post_forwards_body_and_headers:
  assumes "Method r = ''POST''"
    and "Values_Get (URL_Query r) ''url'' = target" and "target \<noteq> []"
    and "url_Parse env target = Some proxyURL"
    and "ReqBody r = Some body"
  shows "case url_Parse env (url_String env proxyURL) of
           Some u \<Rightarrow>
             outbound (proxyHandler env NewRecorder r) =
               [\<lparr>outMethod = ''POST'', outURL = u\<lparr>Host := removeEmptyPort (Host u)\<rparr>,
                 outHeader = Header r, outBody = Some body\<rparr>] \<and>
             (\<forall>resp.
                client_Do env
                  \<lparr>outMethod = ''POST'', outURL = u\<lparr>Host := removeEmptyPort (Host u)\<rparr>,
                   outHeader = Header r, outBody = Some body\<rparr> = Some resp \<and>
                respBody resp = Some body \<and>
                100 \<le> StatusCode resp \<and> StatusCode resp \<le> 999 \<longrightarrow>
                result_body (rw (proxyHandler env NewRecorder r)) = body \<and>
                panicked (proxyHandler env NewRecorder r) = None)
         | None \<Rightarrow>
             outbound (proxyHandler env NewRecorder r) = [] \<and>
             panicked (proxyHandler env NewRecorder r) = None \<and>
             result_status (rw (proxyHandler env NewRecorder r)) = 500 \<and>
             result_body (rw (proxyHandler env NewRecorder r)) =
               ''GHISA: Failed to create request'' @ [CHR 0x0A]"
proof (cases "url_Parse env (url_String env proxyURL)")
  case None
  with assms have "proxyHandler env NewRecorder r =
      finish (http_Error cors_writer ''GHISA: Failed to create request'' 500) []"
    unfolding proxyHandler_unfold by simp
  with None show ?thesis
    by (simp add: error_response result_status_def result_body_def)
next
  case (Some u)
  let ?req = "\<lparr>outMethod = ''POST'', outURL = u\<lparr>Host := removeEmptyPort (Host u)\<rparr>,
      outHeader = Header r, outBody = Some body\<rparr>"
  from assms Some have run: "proxyHandler env NewRecorder r = relay env cors_writer ?req"
    unfolding proxyHandler_unfold by simp
  have sent: "outbound (proxyHandler env NewRecorder r) = [?req]"
    by (simp add: run relay_outbound)
  have echo: "result_body (rw (proxyHandler env NewRecorder r)) = body \<and>
      panicked (proxyHandler env NewRecorder r) = None"
    if "client_Do env ?req = Some resp" and "respBody resp = Some body"
      and "100 \<le> StatusCode resp" and "StatusCode resp \<le> 999" for resp
    using that by (simp add: run relay_success result_body_def)
  from sent echo Some show ?thesis by auto
qed

text \<open>The test "POST request": the backend answers a \<^verbatim>\<open>POST\<close> with the request's body.\<close>

theorem post_forwards_body_and_headers_witness:
  "outbound
     (proxyHandler test_env NewRecorder (newTestRequest ''POST'' ''http://backend'' ''test body'')) =
     [\<lparr>outMethod = ''POST'', outURL = \<lparr>Host = ''backend'', \<dots> = ''http://backend''\<rparr>,
       outHeader = [''Content-Type'' \<mapsto> [''application/json'']],
       outBody = Some ''test body''\<rparr>] \<and>
   result_body
     (rw (proxyHandler test_env NewRecorder
            (newTestRequest ''POST'' ''http://backend'' ''test body''))) =
     ''test body''"
proof -
  let ?r = "newTestRequest ''POST'' ''http://backend'' ''test body''"
  let ?u = "\<lparr>Host = ''backend'', \<dots> = ''http://backend''\<rparr>"
  have m: "Method ?r = ''POST''" by (simp add: newTestRequest_def)
  have q: "Values_Get (URL_Query ?r) ''url'' = ''http://backend''"
    by (simp add: newTestRequest_def Values_Get_def)
  have t: "''http://backend'' \<noteq> []" by simp
  have p: "url_Parse test_env ''http://backend'' = Some ?u"
    by (simp add: test_env_simps test_Parse_examples)
  have b: "ReqBody ?r = Some ''test body''" by (simp add: newTestRequest_def)
  from post_forwards_body_and_headers [OF m q t p b] show ?thesis
    by (simp add: test_env_simps test_Parse_examples removeEmptyPort_examples backend_def
        newTestRequest_def)
qed

text \<open>
  C8 as the specification words it fails in two ways. A \<^verbatim>\<open>POST\<close> for \<^verbatim>\<open>/%2f>\<close> with a
  readable body meets its conditions, the parameter parses, and yet no request goes out:
  the printed form \<^verbatim>\<open>//%3E\<close> does not parse, and the response has status 500. And a
  target that echoes the body under the status code 99 does not get its body relayed:
  \<^verbatim>\<open>w.WriteHeader(99)\<close> panics.
\<close>

theorem post_forward_counterexample:
  "Method (newTestRequest ''POST'' ''/%2f>'' ''test body'') = ''POST'' \<and>
   url_Parse test_env
     (Values_Get (URL_Query (newTestRequest ''POST'' ''/%2f>'' ''test body'')) ''url'') =
     Some \<lparr>Host = [], \<dots> = ''//%3E''\<rparr> \<and>
   ReqBody (newTestRequest ''POST'' ''/%2f>'' ''test body'') = Some ''test body'' \<and>
   outbound (proxyHandler test_env NewRecorder (newTestRequest ''POST'' ''/%2f>'' ''test body''))
     = [] \<and>
   result_status
     (rw (proxyHandler test_env NewRecorder (newTestRequest ''POST'' ''/%2f>'' ''test body'')))
     = 500 \<and>
   map_option respBody
     (backend_099
        \<lparr>outMethod = ''POST'', outURL = \<lparr>Host = ''backend'', \<dots> = ''http://backend''\<rparr>,
         outHeader = [''Content-Type'' \<mapsto> [''application/json'']],
         outBody = Some ''test body''\<rparr>) = Some (Some ''test body'') \<and>
   map outBody
     (outbound
        (proxyHandler (test_env\<lparr>client_Do := backend_099\<rparr>) NewRecorder
           (newTestRequest ''POST'' ''http://backend'' ''test body''))) = [Some ''test body''] \<and>
   panicked
     (proxyHandler (test_env\<lparr>client_Do := backend_099\<rparr>) NewRecorder
        (newTestRequest ''POST'' ''http://backend'' ''test body'')) =
     Some (InvalidWriteHeaderCode 99) \<and>
   result_body
     (rw (proxyHandler (test_env\<lparr>client_Do := backend_099\<rparr>) NewRecorder
            (newTestRequest ''POST'' ''http://backend'' ''test body''))) \<noteq> ''test body''"
proof -
  let ?env = "test_env\<lparr>client_Do := backend_099\<rparr>"
  let ?req = "\<lparr>outMethod = ''POST'', outURL = \<lparr>Host = ''backend'', \<dots> = ''http://backend''\<rparr>,
      outHeader = [''Content-Type'' \<mapsto> [''application/json'']],
      outBody = Some ''test body''\<rparr>"
  let ?resp = "\<lparr>StatusCode = 99,
      respHeader = [(''Content-Type'', [''text/plain; charset=utf-8''])],
      respBody = Some ''test body''\<rparr>"
  have rejected: "proxyHandler test_env NewRecorder (newTestRequest ''POST'' ''/%2f>'' ''test body'') =
      finish (http_Error cors_writer ''GHISA: Failed to create request'' 500) []"
    unfolding proxyHandler_unfold
    by (simp add: newTestRequest_def Values_Get_def test_env_simps test_Parse_examples)
  have d: "backend_099 ?req = Some ?resp"
    by (simp add: backend_099_def backend_def)
  then have d': "client_Do ?env ?req = Some ?resp" by simp
  have run: "proxyHandler ?env NewRecorder (newTestRequest ''POST'' ''http://backend'' ''test body'') =
      relay ?env cors_writer ?req"
    unfolding proxyHandler_unfold
    by (simp add: newTestRequest_def Values_Get_def test_env_def test_Parse_examples
        removeEmptyPort_examples)
  have stopped: "relay ?env cors_writer ?req =
      \<lparr>rw = cors_writer\<lparr>HeaderMap := copy_header (respHeader ?resp) cors_header\<rparr>,
       outbound = [?req], panicked = Some (InvalidWriteHeaderCode (StatusCode ?resp))\<rparr>"
    by (rule relay_panic [OF d']) simp
  show ?thesis
    unfolding rejected run stopped d
    by (simp add: error_response result_status_def result_body_def cors_writer_simps
        newTestRequest_def Values_Get_def test_env_simps test_Parse_examples)
qed

section \<open>The health handler\<close>

text \<open>
  C10. \<^verbatim>\<open>healthHandler\<close> always returns, and in it the method is checked before the path:
  a request whose method is not \<^verbatim>\<open>GET\<close> gets status 405 and the body
  \<^verbatim>\<open>Method not allowed\<close> followed by a newline, whatever its path; the status is 404
  exactly for a \<^verbatim>\<open>GET\<close> of a path other than \<^verbatim>\<open>/health\<close>; and a \<^verbatim>\<open>GET\<close> of \<^verbatim>\<open>/health\<close> gets
  status 200 and the body \<^verbatim>\<open>Server is healthy\<close>, with no newline after it.
\<close>

theorem healthHandler_precedence:
  "is_Returned (healthHandler NewRecorder req) \<and>
   (Method req \<noteq> ''GET'' \<longrightarrow>
      result_status (writer (healthHandler NewRecorder req)) = 405 \<and>
      result_body (writer (healthHandler NewRecorder req)) =
        ''Method not allowed'' @ [CHR 0x0A]) \<and>
   (result_status (writer (healthHandler NewRecorder req)) = 404 \<longleftrightarrow>
      Method req = ''GET'' \<and> URL_Path req \<noteq> ''/health'') \<and>
   (Method req = ''GET'' \<and> URL_Path req = ''/health'' \<longrightarrow>
      result_status (writer (healthHandler NewRecorder req)) = 200 \<and>
      result_body (writer (healthHandler NewRecorder req)) = ''Server is healthy'')"
proof -
  have fresh: "\<not> wroteHeader NewRecorder" "Body NewRecorder = []"
    by (simp_all add: NewRecorder_def)
  show ?thesis
  proof (cases "Method req = ''GET''")
    case False
    then show ?thesis
      by (simp add: healthHandler_def result_status_def result_body_def http_Error_fresh fresh)
  next
    case get: True
    show ?thesis
    proof (cases "URL_Path req = ''/health''")
      case True
      with get show ?thesis
        by (simp add: healthHandler_def result_status_def result_body_def WriteHeader_fresh
            Write_committed fresh)
    next
      case False
      with get show ?thesis
        by (simp add: healthHandler_def http_NotFound_def result_status_def http_Error_fresh
            fresh)
    qed
  qed
qed

text \<open>A \<^verbatim>\<open>POST\<close> and a \<^verbatim>\<open>GET\<close> of \<^verbatim>\<open>/nowhere\<close>, and a \<^verbatim>\<open>GET\<close> of \<^verbatim>\<open>/health\<close>.\<close>

theorem healthHandler_precedence_witness:
  "result_status (writer (healthHandler NewRecorder
      ((newTestRequest ''POST'' [] [])\<lparr>URL_Path := ''/nowhere''\<rparr>))) = 405 \<and>
   result_body (writer (healthHandler NewRecorder
      ((newTestRequest ''POST'' [] [])\<lparr>URL_Path := ''/nowhere''\<rparr>))) =
     ''Method not allowed'' @ [CHR 0x0A] \<and>
   result_status (writer (healthHandler NewRecorder
      ((newTestRequest ''GET'' [] [])\<lparr>URL_Path := ''/nowhere''\<rparr>))) = 404 \<and>
   result_status (writer (healthHandler NewRecorder
      ((newTestRequest ''GET'' [] [])\<lparr>URL_Path := ''/health''\<rparr>))) = 200 \<and>
   result_body (writer (healthHandler NewRecorder
      ((newTestRequest ''GET'' [] [])\<lparr>URL_Path := ''/health''\<rparr>))) = ''Server is healthy''"
  using healthHandler_precedence [of "(newTestRequest ''POST'' [] [])\<lparr>URL_Path := ''/nowhere''\<rparr>"]
    healthHandler_precedence [of "(newTestRequest ''GET'' [] [])\<lparr>URL_Path := ''/nowhere''\<rparr>"]
    healthHandler_precedence [of "(newTestRequest ''GET'' [] [])\<lparr>URL_Path := ''/health''\<rparr>"]
  by (simp add: newTestRequest_def)

end
